theory Spec2Isabelle
  imports Main
begin

unbundle bit_operations_syntax

section \<open>Data model of BigFloat.js\<close>

text \<open>
  The special-value codes \<^verbatim>\<open>SPECIAL_NONE\<close> .. \<^verbatim>\<open>SPECIAL_NAN\<close> of the source (0..3).
  In a condition such as \<^verbatim>\<open>a._special || b._special\<close> a code is truthy exactly when
  it differs from \<^verbatim>\<open>SPECIAL_NONE\<close>, the code 0.
\<close>

datatype special = SPECIAL_NONE | SPECIAL_ZERO | SPECIAL_INF | SPECIAL_NAN

definition truthy :: "special \<Rightarrow> bool" where
  "truthy s = (s \<noteq> SPECIAL_NONE)"

text \<open>
  Rounding modes are the integer codes of the source; the \<^verbatim>\<open>switch\<close> of
  \<^verbatim>\<open>_normalize\<close> has a \<^verbatim>\<open>default\<close> branch for any other code.
\<close>

definition ROUNDING_NEAREST :: nat where "ROUNDING_NEAREST = 0"
definition ROUNDING_UP :: nat where "ROUNDING_UP = 1"
definition ROUNDING_DOWN :: nat where "ROUNDING_DOWN = 2"
definition ROUNDING_ZERO :: nat where "ROUNDING_ZERO = 3"

text \<open>
  The object built by \<^verbatim>\<open>function BigFloat(value, precision, rounding)\<close>: the fields
  \<^verbatim>\<open>_sign\<close>, \<^verbatim>\<open>_exponent\<close>, \<^verbatim>\<open>_significand\<close> (a BigInt), \<^verbatim>\<open>_precision\<close>,
  \<^verbatim>\<open>_rounding\<close>, \<^verbatim>\<open>_special\<close> and the bit-length cache \<^verbatim>\<open>_bits\<close>.
\<close>

record bigfloat =
  sign :: int
  exponent :: int
  significand :: int
  precision :: nat
  rounding :: nat
  special :: special
  bits :: int

text \<open>The two process-wide defaults read by the constructor when an argument is omitted.\<close>

record config =
  defaultPrecision :: nat
  defaultRounding :: nat

text \<open>
  Their initial values: \<^verbatim>\<open>BigFloat.defaultPrecision = 20\<close> and
  \<^verbatim>\<open>BigFloat.defaultRounding = BigFloat.RoundingMode.NEAREST\<close>.
\<close>

definition initialDefaults :: config where
  "initialDefaults = \<lparr>defaultPrecision = 20, defaultRounding = ROUNDING_NEAREST\<rparr>"

text \<open>
  The host Numbers handed to the constructor: \<^verbatim>\<open>NaN\<close>, the two infinities, and a finite
  double written \<open>m \<cdot> 2\<^sup>e\<close> as \<open>Finite m e\<close>.
\<close>

datatype number = NaN | Infinity | NegInfinity | Finite int int

datatype "value" = Number number | BigInt int | Object bigfloat

text \<open>Out-of-band signals: the \<^verbatim>\<open>throw\<close> statements and host type errors.\<close>

datatype error = RangeError string | Error string | TypeError string

section \<open>BigInt helpers\<close>

text \<open>
  \<^verbatim>\<open>x << n\<close> and \<^verbatim>\<open>x >> n\<close> on BigInt: a negative count shifts the other way, and
  the right shift is the flooring one.
\<close>

definition shl :: "int \<Rightarrow> int \<Rightarrow> int" where
  "shl x n = (if 0 \<le> n then x * 2 ^ nat n else x div 2 ^ nat (- n))"

definition shr :: "int \<Rightarrow> int \<Rightarrow> int" where
  "shr x n = (if 0 \<le> n then x div 2 ^ nat n else x * 2 ^ nat (- n))"

text \<open>The digits of \<^verbatim>\<open>n.toString(16)\<close> for a non-negative \<open>n\<close>, most significant first.\<close>

function toString16 :: "int \<Rightarrow> int list" where
  "toString16 n = (if n < 16 then [n] else toString16 (n div 16) @ [n mod 16])"
  by pat_completeness auto
termination
  by (relation "measure nat") auto

declare toString16.simps [simp del]

text \<open>
  The hex-string method of \<^verbatim>\<open>_bitlength\<close>: four bits for every hex digit after the
  first, plus the occupied bits of the first one. For a negative BigInt the string starts
  with \<^verbatim>\<open>-\<close>, \<^verbatim>\<open>parseInt\<close> of it is NaN, and every comparison fails (one bit).
\<close>

definition firstDigitBits :: "int \<Rightarrow> int" where
  "firstDigitBits d = (if 8 \<le> d then 4 else if 4 \<le> d then 3 else if 2 \<le> d then 2 else 1)"

definition hexBitlength :: "int \<Rightarrow> int" where
  "hexBitlength n =
     (if n < 0 then int (length (toString16 (- n))) * 4 + 1
      else (int (length (toString16 n)) - 1) * 4 + firstDigitBits (hd (toString16 n)))"

section \<open>Bit-length cache and normalization\<close>

text \<open>
  \<^verbatim>\<open>BigFloat.prototype._bitlength(forced)\<close>: the value returned and the object
  afterwards (the call writes \<^verbatim>\<open>_bits\<close>). A positive cached value is returned as it is.
\<close>

definition bitlength :: "bool \<Rightarrow> bigfloat \<Rightarrow> int \<times> bigfloat" where
  "bitlength forced x =
     (if significand x = 0 then (0, x\<lparr>bits := 0\<rparr>)
      else let x1 = (if forced then x\<lparr>bits := - 1\<rparr> else x) in
        if 0 < bits x1 then (bits x1, x1)
        else let b = hexBitlength (significand x1) in (b, x1\<lparr>bits := b\<rparr>))"

text \<open>
  \<^verbatim>\<open>Math.ceil((this._precision + 1) * 3.321928094887362)\<close>. The product is written
  with the decimal constant as a fraction, where the code rounds a double product; the two
  ceilings agree for every precision below 190418698 and differ there (632557227 here,
  632557226 in the code). \<^verbatim>\<open>Math.log2(10)\<close> is the same double as the constant.
\<close>

definition targetBits :: "nat \<Rightarrow> int" where
  "targetBits p = ((int p + 1) * 3321928094887362 + 999999999999999) div 1000000000000000"

text \<open>\<^verbatim>\<open>BigFloat.prototype._normalizeBits\<close>.\<close>

definition normalizeBits :: "bigfloat \<Rightarrow> bigfloat" where
  "normalizeBits x =
     (if significand x = 0
      then x\<lparr>special := SPECIAL_ZERO, sign := 1, exponent := 0, significand := 0, bits := 0\<rparr>
      else let (bitlen, x1) = bitlength True x in
        x1\<lparr>exponent := exponent x1 + (bitlen - 1), special := SPECIAL_NONE\<rparr>)"

text \<open>\<^verbatim>\<open>BigFloat.prototype._compact\<close>: the loop strips trailing zero bits and counts them.\<close>

function compact_loop :: "int \<Rightarrow> int \<Rightarrow> int \<times> int" where
  "compact_loop sig n =
     (if sig AND 1 = 0 \<and> 0 < sig then compact_loop (shr sig 1) (n + 1) else (sig, n))"
  by pat_completeness auto
termination
  by (relation "measure (\<lambda>(sig, n). nat sig)") (auto simp: shr_def)

declare compact_loop.simps [simp del]

definition compact :: "bigfloat \<Rightarrow> bigfloat" where
  "compact x =
     (let (sig, n) = compact_loop (significand x) 0;
          x1 = x\<lparr>significand := sig, bits := bits x - n\<rparr>
      in if sig = 0 then x1\<lparr>special := SPECIAL_ZERO\<rparr> else x1)"

text \<open>
  The \<^verbatim>\<open>switch (this._rounding)\<close> of \<^verbatim>\<open>_normalize\<close>: the value of \<^verbatim>\<open>roundUp\<close>, from
  the object after the right shift (its sign, mode and shifted significand), the dropped
  bits and their number.
\<close>

definition roundUp :: "bigfloat \<Rightarrow> int \<Rightarrow> int \<Rightarrow> bool" where
  "roundUp x droppedBits bitsToRemove =
     (let halfWay = shl 1 (bitsToRemove - 1) in
      if rounding x = ROUNDING_NEAREST then
        (let firstDroppedBit = shl 1 (bitsToRemove - 1) in droppedBits AND firstDroppedBit \<noteq> 0)
      else if rounding x = ROUNDING_UP then
        (if 0 < sign x then 0 < droppedBits else False)
      else if rounding x = ROUNDING_DOWN then
        (if sign x < 0 then 0 < droppedBits else False)
      else if rounding x = ROUNDING_ZERO then False
      else halfWay < droppedBits \<or> (droppedBits = halfWay \<and> significand x AND 1 = 1))"

text \<open>The \<^verbatim>\<open>if (roundUp) { ... }\<close> block of \<^verbatim>\<open>_normalize\<close>, with its overflow test.\<close>

definition applyRounding :: "int \<Rightarrow> bigfloat \<Rightarrow> bigfloat" where
  "applyRounding tBits x =
     (let x1 = x\<lparr>significand := significand x + 1\<rparr>;
          isPowerOf2 = (significand x1 AND (significand x1 - 1) = 0)
      in if isPowerOf2 \<and> shl 1 tBits < significand x1
         then x1\<lparr>significand := shr (significand x1) 1, exponent := exponent x1 + 1, bits := tBits\<rparr>
         else x1\<lparr>bits := tBits\<rparr>)"

text \<open>\<^verbatim>\<open>BigFloat.prototype._normalize\<close>: rounds the object to its precision.\<close>

definition normalize :: "bigfloat \<Rightarrow> bigfloat" where
  "normalize x0 =
     (let tBits = targetBits (precision x0);
          (currentBits, x) = bitlength False x0
      in if currentBits \<le> tBits
         then x\<lparr>special := (if significand x = 0 then SPECIAL_ZERO else SPECIAL_NONE)\<rparr>
         else
           let bitsToRemove = currentBits - tBits;
               mask = shl 1 bitsToRemove - 1;
               droppedBits = significand x AND mask;
               x1 = x\<lparr>significand := shr (significand x) bitsToRemove, bits := tBits\<rparr>;
               x2 = (if roundUp x1 droppedBits bitsToRemove then applyRounding tBits x1 else x1)
           in x2\<lparr>special := (if significand x2 = 0 then SPECIAL_ZERO else SPECIAL_NONE)\<rparr>)"

section \<open>Construction\<close>

text \<open>
  \<^verbatim>\<open>BigFloat.prototype._fromNumber\<close> on the object just initialised by the constructor.
  \<^verbatim>\<open>Math.sign(num) || 1\<close> is \<open>1\<close> for NaN. For a double that is not an integer,
  \<^verbatim>\<open>num * 2 ** 52\<close> is exact and \<^verbatim>\<open>Math.round\<close> rounds half up.
\<close>

definition isIntegerNumber :: "int \<Rightarrow> int \<Rightarrow> bool" where
  "isIntegerNumber m e = (0 \<le> e \<or> m mod 2 ^ nat (- e) = 0)"

definition roundScaled :: "int \<Rightarrow> int \<Rightarrow> int" where
  "roundScaled m e =
     (if 0 \<le> e + 52 then m * 2 ^ nat (e + 52)
      else (m + 2 ^ nat (- (e + 52) - 1)) div 2 ^ nat (- (e + 52)))"

definition fromNumber :: "number \<Rightarrow> bigfloat \<Rightarrow> bigfloat" where
  "fromNumber num this =
     (case num of
        NaN \<Rightarrow> this\<lparr>special := SPECIAL_NAN, sign := 1, bits := 0\<rparr>
      | Infinity \<Rightarrow> this\<lparr>special := SPECIAL_INF, sign := 1, bits := 0\<rparr>
      | NegInfinity \<Rightarrow> this\<lparr>special := SPECIAL_INF, sign := - 1, bits := 0\<rparr>
      | Finite m e \<Rightarrow>
          if m = 0
          then this\<lparr>special := SPECIAL_ZERO, sign := 1, exponent := 0, significand := 0, bits := 0\<rparr>
          else
            let this1 = this\<lparr>sign := (if m < 0 then - 1 else 1)\<rparr>
            in if isIntegerNumber m e
               then normalizeBits
                      (this1\<lparr>significand := shl \<bar>m\<bar> e, exponent := 0, special := SPECIAL_NONE\<rparr>)
               else
                 let this2 = this1\<lparr>significand := roundScaled \<bar>m\<bar> e\<rparr>;
                     (bitlen, this3) = bitlength False this2;
                     this4 = this3\<lparr>exponent := - 52 + bitlen - 1\<rparr>
                 in normalize (compact this4))"

text \<open>
  The constructor \<^verbatim>\<open>new BigFloat(value, precision, rounding)\<close>. A BigFloat argument is
  copied field by field (\<^verbatim>\<open>Object.assign\<close>), precision and rounding included.
\<close>

definition BigFloat :: "value \<Rightarrow> nat \<Rightarrow> nat \<Rightarrow> bigfloat" where
  "BigFloat v prec rnd =
     (let this = \<lparr>sign = 1, exponent = 0, significand = 0, precision = prec, rounding = rnd,
                  special = SPECIAL_ZERO, bits = 0\<rparr>
      in case v of
           Number num \<Rightarrow> fromNumber num this
         | BigInt n \<Rightarrow>
             normalizeBits (this\<lparr>significand := \<bar>n\<bar>, sign := (if n < 0 then - 1 else 1),
                                 exponent := 0\<rparr>)
         | Object b \<Rightarrow> b)"

text \<open>\<^verbatim>\<open>new BigFloat(value)\<close> with the two defaults.\<close>

definition newBigFloat :: "config \<Rightarrow> value \<Rightarrow> bigfloat" where
  "newBigFloat cfg v = BigFloat v (defaultPrecision cfg) (defaultRounding cfg)"

section \<open>Addition, subtraction, multiplication\<close>

text \<open>
  The special-value block of \<^verbatim>\<open>BigFloat.add\<close>: \<open>Some r\<close> when it returns \<open>r\<close>,
  \<open>None\<close> when control reaches the aligned addition.
\<close>

definition add_special :: "config \<Rightarrow> bigfloat \<Rightarrow> bigfloat \<Rightarrow> bigfloat option" where
  "add_special cfg a b =
     (if truthy (special a) \<or> truthy (special b) then
        if special a = SPECIAL_NAN \<or> special b = SPECIAL_NAN
          then Some (newBigFloat cfg (Number NaN))
        else if special a = SPECIAL_INF \<and> special b = SPECIAL_INF
          then Some (if sign a = sign b then newBigFloat cfg (Object a)
                     else newBigFloat cfg (Number NaN))
        else if special a = SPECIAL_INF then Some (newBigFloat cfg (Object a))
        else if special b = SPECIAL_INF then Some (newBigFloat cfg (Object b))
        else if special a = SPECIAL_ZERO then Some (newBigFloat cfg (Object b))
        else if special b = SPECIAL_ZERO then Some (newBigFloat cfg (Object a))
        else None
      else None)"

text \<open>
  The alignment of \<^verbatim>\<open>BigFloat.add\<close>: the signed sum \<^verbatim>\<open>sumSig\<close> of the two significands
  brought to the smaller effective exponent, and that exponent \<^verbatim>\<open>commonEffExp\<close>.
\<close>

definition alignedSum :: "bigfloat \<Rightarrow> bigfloat \<Rightarrow> int \<times> int" where
  "alignedSum a b =
     (let x_sig = significand a; y_sig = significand b;
          bitlenX = fst (bitlength False a); bitlenY = fst (bitlength False b);
          effExpX = exponent a - (bitlenX - 1);
          effExpY = exponent b - (bitlenY - 1);
          (x_sig1, y_sig1, commonEffExp) =
            (if effExpY < effExpX then (shl x_sig (effExpX - effExpY), y_sig, effExpY)
             else if effExpX < effExpY then (x_sig, shl y_sig (effExpY - effExpX), effExpX)
             else (x_sig, y_sig, effExpX))
      in (sign a * x_sig1 + sign b * y_sig1, commonEffExp))"

text \<open>\<^verbatim>\<open>BigFloat.add\<close>.\<close>

definition add :: "config \<Rightarrow> bigfloat \<Rightarrow> bigfloat \<Rightarrow> bigfloat" where
  "add cfg a b =
     (case add_special cfg a b of
        Some r \<Rightarrow> r
      | None \<Rightarrow>
          let workPrec = max (precision a) (precision b);
              (sumSig, commonEffExp) = alignedSum a b
          in if sumSig = 0 then newBigFloat cfg (BigInt 0)
             else
               let result = newBigFloat cfg (BigInt 0);
                   result1 = result\<lparr>sign := (if sumSig < 0 then - 1 else 1),
                                    significand := \<bar>sumSig\<bar>\<rparr>;
                   (bitlenR, result2) = bitlength False result1;
                   result3 = result2\<lparr>exponent := commonEffExp + (bitlenR - 1),
                                     precision := workPrec, rounding := rounding a\<rparr>;
                   result4 = (if significand result3 \<noteq> 0
                              then result3\<lparr>special := SPECIAL_NONE\<rparr> else result3)
               in normalize result4)"

text \<open>\<^verbatim>\<open>BigFloat.sub\<close>: a copy of \<open>b\<close> with the sign flipped, then \<^verbatim>\<open>add\<close>.\<close>

definition sub :: "config \<Rightarrow> bigfloat \<Rightarrow> bigfloat \<Rightarrow> bigfloat" where
  "sub cfg a b =
     (let negB = newBigFloat cfg (Object b);
          negB1 = negB\<lparr>sign := - sign negB\<rparr>
      in add cfg a negB1)"

text \<open>\<^verbatim>\<open>BigFloat.mul\<close>. \<^verbatim>\<open>new BigFloat()\<close> is the constructor on the Number 0.\<close>

definition mul :: "config \<Rightarrow> bigfloat \<Rightarrow> bigfloat \<Rightarrow> bigfloat" where
  "mul cfg a b =
     (if special a = SPECIAL_NAN \<or> special b = SPECIAL_NAN then newBigFloat cfg (Number NaN)
      else if special a = SPECIAL_ZERO \<or> special b = SPECIAL_ZERO
        then newBigFloat cfg (Number (Finite 0 0))
      else if special a = SPECIAL_INF \<or> special b = SPECIAL_INF
        then (let sgn = sign a * sign b
              in newBigFloat cfg (Number (if 0 < sgn then Infinity else NegInfinity)))
      else
        let product = newBigFloat cfg (Number (Finite 0 0));
            product1 = product\<lparr>sign := sign a * sign b,
                               significand := significand a * significand b,
                               exponent := exponent a + exponent b,
                               precision := max (precision a) (precision b),
                               rounding := rounding a\<rparr>;
            product2 = (if significand product1 \<noteq> 0
                        then product1\<lparr>special := SPECIAL_NONE\<rparr> else product1);
            aBits = fst (bitlength False a);
            bBits = fst (bitlength False b);
            (productBits, product3) = bitlength False product2;
            expectedBits = aBits + bBits - 1;
            product4 = (if expectedBits < productBits
                        then product3\<lparr>exponent := exponent product3 + 1\<rparr> else product3)
        in normalize product4)"

text \<open>
  What \<^verbatim>\<open>BigFloat.mul\<close> leaves in its two operands: on the normal path it calls
  \<^verbatim>\<open>_bitlength()\<close> on both, which writes their caches.
\<close>

definition mul_operands :: "bigfloat \<Rightarrow> bigfloat \<Rightarrow> bigfloat \<times> bigfloat" where
  "mul_operands a b =
     (if truthy (special a) \<or> truthy (special b) then (a, b)
      else (snd (bitlength False a), snd (bitlength False b)))"

section \<open>Reciprocal and division\<close>

text \<open>
  The double arithmetic of \<^verbatim>\<open>BigFloat.inverse\<close>, \<^verbatim>\<open>fv = v.toNumber()\<close> and
  \<^verbatim>\<open>invStart = 1 / fv\<close>, is a parameter of the model: \<open>None\<close> when \<^verbatim>\<open>fv\<close> is not
  finite or is zero, otherwise the double \<^verbatim>\<open>1 / fv\<close>.
\<close>

type_synonym hostfloat = "bigfloat \<Rightarrow> number option"

text \<open>
  The Newton loop \<^verbatim>\<open>for (;;++loopCnt)\<close> of \<^verbatim>\<open>BigFloat.inverse\<close>; \<open>None\<close> when it
  never reaches a \<^verbatim>\<open>break\<close>.
\<close>

partial_function (option) newton :: "config \<Rightarrow> bigfloat \<Rightarrow> int \<Rightarrow> bigfloat \<Rightarrow> bigfloat option" where
  "newton cfg v bitPrec u =
     (let two = newBigFloat cfg (Number (Finite 2 0));
          one = newBigFloat cfg (Number (Finite 1 0));
          r1 = mul cfg v u;
          r2 = sub cfg two r1;
          u1 = mul cfg u r2;
          r3 = sub cfg r2 one
      in if significand r3 = 0 then Some u1
         else if exponent r3 < - bitPrec then Some u1
         else newton cfg v bitPrec u1)"

declare newton.simps [code]

text \<open>\<^verbatim>\<open>BigFloat.inverse\<close>.\<close>

definition inverse_bf :: "hostfloat \<Rightarrow> config \<Rightarrow> bigfloat \<Rightarrow> bigfloat option" where
  "inverse_bf host cfg a =
     (if special a = SPECIAL_NAN then Some (newBigFloat cfg (Number NaN))
      else if special a = SPECIAL_ZERO then Some (newBigFloat cfg (Number Infinity))
      else if special a = SPECIAL_INF then Some (newBigFloat cfg (BigInt 0))
      else if significand a = 0 then Some (newBigFloat cfg (Number Infinity))
      else
        let prec = precision a;
            extra = 5;
            workPrec = prec + extra;
            bitPrec = targetBits prec;
            v = (newBigFloat cfg (Object a))\<lparr>sign := 1, precision := workPrec, exponent := 0\<rparr>
        in case host v of
             None \<Rightarrow> Some (newBigFloat cfg (Number Infinity))
           | Some invStart \<Rightarrow>
               (case newton cfg v bitPrec (BigFloat (Number invStart) workPrec (defaultRounding cfg)) of
                  None \<Rightarrow> None
                | Some u \<Rightarrow>
                    Some (normalize (u\<lparr>exponent := exponent u - exponent a, sign := sign a,
                                        precision := prec\<rparr>))))"

text \<open>
  \<^verbatim>\<open>BigFloat.div\<close>: the value returned, and the objects \<open>a\<close> and \<open>b\<close> as the call
  leaves them. \<^verbatim>\<open>let inv = b\<close> names the caller's object, so \<^verbatim>\<open>inv._precision = prec\<close>
  writes \<open>b\<close>. \<open>None\<close> when the Newton loop of the reciprocal never ends. The two
  operands are taken to be two distinct objects.
\<close>

definition div_bf ::
  "hostfloat \<Rightarrow> config \<Rightarrow> bigfloat \<Rightarrow> bigfloat \<Rightarrow> (bigfloat \<times> bigfloat \<times> bigfloat) option" where
  "div_bf host cfg a b =
     (if special b = SPECIAL_ZERO then Some (newBigFloat cfg (Number Infinity), a, b)
      else if special b = SPECIAL_INF then Some (newBigFloat cfg (BigInt 0), a, b)
      else if (truthy (special a) \<or> truthy (special b))
              \<and> (special a = SPECIAL_NAN \<or> special b = SPECIAL_NAN)
        then Some (newBigFloat cfg (Number NaN), a, b)
      else
        let prec = max (precision a) (precision b) in
        if exponent b = 0 \<and> significand b = 1
        then Some ((newBigFloat cfg (Object a))\<lparr>precision := prec\<rparr>, a, b)
        else
          let inv = b\<lparr>precision := prec\<rparr> in
          if exponent a = 0 \<and> significand a = 1
          then (case inverse_bf host cfg inv of None \<Rightarrow> None | Some r \<Rightarrow> Some (r, a, inv))
          else if significand a = 1 \<and> significand inv = 1
          then Some ((BigFloat (BigInt 1) prec (rounding a))
                       \<lparr>exponent := exponent a - exponent inv, sign := sign a * sign inv\<rparr>, a, inv)
          else if significand inv = 1
          then Some ((newBigFloat cfg (Object a))
                       \<lparr>precision := prec, exponent := exponent a - exponent inv,
                        sign := sign a * sign inv\<rparr>, a, inv)
          else if significand a = 1
          then (case inverse_bf host cfg inv of
                  None \<Rightarrow> None
                | Some inv1 \<Rightarrow>
                    Some (inv1\<lparr>exponent := exponent inv1 + exponent a,
                               sign := sign a * sign inv1\<rparr>, a, inv))
          else (case inverse_bf host cfg inv of
                  None \<Rightarrow> None
                | Some inv1 \<Rightarrow> Some (mul cfg a inv1, fst (mul_operands a inv1), inv)))"

text \<open>\<^verbatim>\<open>BigFloat.neg\<close>.\<close>

definition neg :: "config \<Rightarrow> bigfloat \<Rightarrow> bigfloat" where
  "neg cfg a =
     (let res = newBigFloat cfg (Object a)
      in if special res = SPECIAL_ZERO \<or> significand res = 0 then res
         else if special res = SPECIAL_INF \<or> special res = SPECIAL_NONE
           then res\<lparr>sign := sign res * (- 1)\<rparr>
         else res)"

section \<open>Comparison\<close>

text \<open>\<^verbatim>\<open>BigFloat.equal\<close> on two BigFloat objects.\<close>

definition equal_bf :: "bigfloat \<Rightarrow> bigfloat \<Rightarrow> bool" where
  "equal_bf a b =
     (if special a = SPECIAL_NAN \<or> special b = SPECIAL_NAN then False
      else if special a = SPECIAL_ZERO \<and> special b = SPECIAL_ZERO then True
      else if special a = SPECIAL_INF \<and> special b = SPECIAL_INF then sign a = sign b
      else sign a = sign b \<and> exponent a = exponent b \<and> significand a = significand b)"

text \<open>\<^verbatim>\<open>BigFloat.less\<close> on two BigFloat objects.\<close>

definition less_bf :: "bigfloat \<Rightarrow> bigfloat \<Rightarrow> bool" where
  "less_bf a b =
     (if special a = SPECIAL_NAN \<or> special b = SPECIAL_NAN then False
      else if sign a < sign b then True
      else if sign b < sign a then False
      else
        let sgn = sign a in
        if special a = SPECIAL_INF \<and> special b = SPECIAL_INF then False
        else if special a = SPECIAL_INF then sgn < 0
        else if special b = SPECIAL_INF then 0 < sgn
        else if special a = SPECIAL_ZERO \<and> special b = SPECIAL_ZERO then False
        else if special a = SPECIAL_ZERO then 0 < sgn
        else if special b = SPECIAL_ZERO then sgn < 0
        else
          let bitLenA = fst (bitlength False a);
              bitLenB = fst (bitlength False b);
              effExpA = exponent a - bitLenA + 1;
              effExpB = exponent b - bitLenB + 1;
              commonEffExp = min effExpA effExpB;
              scaleA = effExpA - commonEffExp;
              scaleB = effExpB - commonEffExp;
              scaledSigA = shl (significand a) scaleA;
              scaledSigB = shl (significand b) scaleB
          in if scaledSigA \<noteq> scaledSigB
             then (if 0 < sgn then scaledSigA < scaledSigB else scaledSigB < scaledSigA)
             else False)"

text \<open>\<^verbatim>\<open>BigFloat.cmp\<close>: \<open>-1\<close>, \<open>0\<close> or \<open>1\<close>.\<close>

definition cmp :: "bigfloat \<Rightarrow> bigfloat \<Rightarrow> int" where
  "cmp a b = (if less_bf a b then - 1 else if less_bf b a then 1 else 0)"

section \<open>Integer operations\<close>

text \<open>
  \<^verbatim>\<open>BigFloat.trunc\<close>. The copy \<^verbatim>\<open>new BigFloat(x)\<close> of an integer is taken after
  \<^verbatim>\<open>x._bitlength()\<close> has written the cache of \<open>x\<close>.
\<close>

definition trunc :: "bigfloat \<Rightarrow> bigfloat" where
  "trunc x =
     (if special x = SPECIAL_ZERO then BigFloat (BigInt 0) (precision x) (rounding x)
      else if special x = SPECIAL_INF
        then BigFloat (Number (if 0 < sign x then Infinity else NegInfinity)) (precision x) (rounding x)
      else if special x = SPECIAL_NAN then BigFloat (Number NaN) (precision x) (rounding x)
      else
        let (bitlen, x1) = bitlength False x;
            effExp = exponent x1 - (bitlen - 1)
        in if 0 \<le> effExp then x1
           else
             let fracBits = - effExp;
                 resultInt = shr (significand x1) fracBits;
                 resultInt1 = (if sign x1 < 0 then - resultInt else resultInt)
             in BigFloat (BigInt resultInt1) (precision x1) (rounding x1))"

text \<open>
  \<^verbatim>\<open>BigFloat.fmod\<close>: \<open>Inl\<close> is the \<^verbatim>\<open>throw\<close>, \<open>None\<close> a division that never returns.
  The later calls see \<open>a\<close> and \<open>b\<close> as \<^verbatim>\<open>div\<close> left them.
\<close>

definition fmod :: "hostfloat \<Rightarrow> config \<Rightarrow> bigfloat \<Rightarrow> bigfloat \<Rightarrow> (error + bigfloat) option" where
  "fmod host cfg a b =
     (if significand b = 0 then Some (Inl (Error ''Division by zero in fmod''))
      else case div_bf host cfg a b of
             None \<Rightarrow> None
           | Some (quot, a1, b1) \<Rightarrow>
               let truncated = trunc quot;
                   product = mul cfg truncated b1
               in Some (Inr (sub cfg a1 product)))"

text \<open>\<^verbatim>\<open>BigFloat.frexp\<close>: the pair \<^verbatim>\<open>[mantissa, exp]\<close>.\<close>

definition frexp :: "config \<Rightarrow> bigfloat \<Rightarrow> bigfloat \<times> int" where
  "frexp cfg x =
     (if special x = SPECIAL_ZERO then (BigFloat (BigInt 0) (precision x) (rounding x), 0)
      else if special x = SPECIAL_NAN then (newBigFloat cfg (Number NaN), 0)
      else if special x = SPECIAL_INF
        then (newBigFloat cfg (Number (if 0 < sign x then Infinity else NegInfinity)), 0)
      else
        let mantissa = newBigFloat cfg (Object x);
            exp = exponent x
        in (mantissa, exp))"

text \<open>
  \<^verbatim>\<open>BigFloat.ldexp\<close>, with an integer \<^verbatim>\<open>exp\<close>. The sum of the exponents is exact
  here; the code adds two doubles, which is the same sum while it stays below \<open>2\<^sup>5\<^sup>3\<close>
  in magnitude.
\<close>

definition ldexp :: "config \<Rightarrow> bigfloat \<Rightarrow> int \<Rightarrow> bigfloat" where
  "ldexp cfg x exp =
     (if special x = SPECIAL_ZERO then BigFloat (BigInt 0) (precision x) (rounding x)
      else if special x = SPECIAL_NAN then newBigFloat cfg (Number NaN)
      else if special x = SPECIAL_INF
        then newBigFloat cfg (Number (if 0 < sign x then Infinity else NegInfinity))
      else
        let result = newBigFloat cfg (Object x);
            result1 = result\<lparr>exponent := exponent result + exp\<rparr>
        in normalize result1)"

text \<open>
  \<^verbatim>\<open>BigFloat.prototype.toBigInt\<close>: \<open>Inl\<close> is one of its two \<^verbatim>\<open>throw\<close> statements.
  The shift \<^verbatim>\<open>_significand << BigInt(effExp)\<close> is unbounded here; the RangeError that
  the host raises when the shifted BigInt exceeds its size limit is not modelled, so an
  \<open>Inr\<close> of this definition says nothing about a finite value with a huge exponent.
\<close>

definition toBigInt :: "bigfloat \<Rightarrow> error + int" where
  "toBigInt this =
     (if special this = SPECIAL_NAN then Inl (RangeError ''Cannot convert NaN to BigInt'')
      else if special this = SPECIAL_INF then Inl (RangeError ''Cannot convert Infinity to BigInt'')
      else if special this = SPECIAL_ZERO \<or> significand this = 0 then Inr 0
      else
        let truncated = trunc this;
            bitlen = fst (bitlength False truncated);
            effExp = exponent truncated - (bitlen - 1);
            result = (if 0 \<le> effExp then shl (significand truncated) effExp
                      else shr (significand truncated) (- effExp))
        in Inr (if sign truncated < 0 then - result else result))"

section \<open>Power: the special cases of an infinite base\<close>

text \<open>
  The head of \<^verbatim>\<open>BigFloat.pow\<close>, down to the end of the block
  \<^verbatim>\<open>if (x._special === SPECIAL_INF)\<close>: \<open>Some\<close> when the call ends there, \<open>None\<close> when
  control goes on to the cases below it. For a negative infinite base and a positive
  exponent the block calls \<^verbatim>\<open>BigFloat.isInteger(y)\<close>; the source defines
  \<^verbatim>\<open>BigFloat.prototype.isInteger\<close> only, so the call is a call of \<^verbatim>\<open>undefined\<close> and the
  host raises a TypeError before either \<^verbatim>\<open>return new BigFloat(Infinity)\<close> below it.
\<close>

definition pow_special :: "config \<Rightarrow> bigfloat \<Rightarrow> bigfloat \<Rightarrow> (error + bigfloat) option" where
  "pow_special cfg x y =
     (if special x = SPECIAL_NAN then Some (Inr (newBigFloat cfg (Number NaN)))
      else if special y = SPECIAL_NAN then Some (Inr (newBigFloat cfg (Number NaN)))
      else if special x = SPECIAL_INF then
        (if special y = SPECIAL_ZERO \<or> significand y = 0
           then Some (Inr (BigFloat (BigInt 1) (precision x) (rounding x)))
         else if sign y < 0
           then Some (Inr (BigFloat (BigInt 0) (precision x) (rounding x)))
         else if sign x < 0
           then Some (Inl (TypeError ''BigFloat.isInteger is not a function''))
         else Some (Inr (newBigFloat cfg (Number Infinity))))
      else None)"

section \<open>The rounding rule as the specification words it\<close>

text \<open>
  The number \<open>d = b - W\<close> of excess bits of an object: \<open>b\<close> the bit length of its
  significand, \<open>W\<close> the binary width of its precision.
\<close>

definition excessBits :: "bigfloat \<Rightarrow> nat" where
  "excessBits x = nat (hexBitlength (significand x) - targetBits (precision x))"

text \<open>
  The table of conditions for rounding the magnitude up, by mode, sign, dropped bits and
  their number \<open>d\<close>: NEAREST when bit \<open>d - 1\<close> of the dropped bits is set, UP when the
  sign is \<open>+1\<close> and the dropped bits are not zero, DOWN when the sign is \<open>-1\<close> and they
  are not zero, ZERO never.
\<close>

definition spec_round_up :: "nat \<Rightarrow> int \<Rightarrow> int \<Rightarrow> nat \<Rightarrow> bool" where
  "spec_round_up mode s dropped d =
     (if mode = ROUNDING_NEAREST then bit dropped (d - 1)
      else if mode = ROUNDING_UP then s = 1 \<and> dropped \<noteq> 0
      else if mode = ROUNDING_DOWN then s = - 1 \<and> dropped \<noteq> 0
      else False)"

text \<open>
  A host on which \<^verbatim>\<open>toNumber\<close> never yields a finite non-zero double, for calls that
  end before the reciprocal is taken.
\<close>

definition noHost :: hostfloat where
  "noHost v = None"

section \<open>The bit length computed from the hex string\<close>

lemma toString16_nonempty: "toString16 n \<noteq> []"
  by (subst toString16.simps) simp

lemma hexBitlength_small: "0 < n \<Longrightarrow> n < 16 \<Longrightarrow> hexBitlength n = firstDigitBits n"
  by (simp add: hexBitlength_def toString16.simps)

lemma hexBitlength_step: "16 \<le> n \<Longrightarrow> hexBitlength n = hexBitlength (n div 16) + 4"
proof -
  assume h: "16 \<le> n"
  then have "toString16 n = toString16 (n div 16) @ [n mod 16]"
    by (subst toString16.simps) simp
  moreover have "0 \<le> n div 16" using h by simp
  ultimately show ?thesis
    using h toString16_nonempty [of "n div 16"] by (simp add: hexBitlength_def)
qed

text \<open>For a positive BigInt the hex-string method gives the position of the top bit plus one.\<close>

lemma hexBitlength_bounds:
  "0 < n \<Longrightarrow> 1 \<le> hexBitlength n \<and> 2 ^ nat (hexBitlength n - 1) \<le> n \<and> n < 2 ^ nat (hexBitlength n)"
proof (induction n rule: toString16.induct)
  case (1 n)
  show ?case
  proof (cases "n < 16")
    case True
    with "1.prems" show ?thesis
      by (auto simp: hexBitlength_small firstDigitBits_def)
  next
    case False
    then have ge: "16 \<le> n" by simp
    then have pos: "0 < n div 16" by simp
    from "1.IH" [OF False pos] have
      b1: "1 \<le> hexBitlength (n div 16)" and
      lo: "2 ^ nat (hexBitlength (n div 16) - 1) \<le> n div 16" and
      hi: "n div 16 < 2 ^ nat (hexBitlength (n div 16))" by simp_all
    have eq: "hexBitlength n = hexBitlength (n div 16) + 4" by (rule hexBitlength_step [OF ge])
    have e1: "nat (hexBitlength n - 1) = nat (hexBitlength (n div 16) - 1) + 4"
      using b1 eq by simp
    have e2: "nat (hexBitlength n) = nat (hexBitlength (n div 16)) + 4"
      using b1 eq by simp
    have "(2::int) ^ nat (hexBitlength n - 1) = 16 * 2 ^ nat (hexBitlength (n div 16) - 1)"
      by (simp add: e1 power_add)
    also have "\<dots> \<le> 16 * (n div 16)" using lo by simp
    also have "\<dots> \<le> n" by simp
    finally have L: "2 ^ nat (hexBitlength n - 1) \<le> n" .
    have "n div 16 + 1 \<le> 2 ^ nat (hexBitlength (n div 16))" using hi by simp
    then have "16 * (n div 16 + 1) \<le> 16 * 2 ^ nat (hexBitlength (n div 16))" by simp
    moreover have "n < 16 * (n div 16 + 1)" by simp
    ultimately have "n < 16 * 2 ^ nat (hexBitlength (n div 16))" by linarith
    then have H: "n < 2 ^ nat (hexBitlength n)" by (simp add: e2 power_add)
    show ?thesis using L H b1 eq by simp
  qed
qed

lemma and_mask_mod: "(x::int) AND (2 ^ d - 1) = x mod 2 ^ d"
  by (simp add: take_bit_eq_mod [symmetric] take_bit_eq_mask mask_eq_exp_minus_1)

lemma first_dropped_bit: "0 < d \<Longrightarrow> ((x::int) AND shl 1 (d - 1) \<noteq> 0) = bit x (nat (d - 1))"
  by (simp add: shl_def and_exp_eq_0_iff_not_bit)

lemma targetBits_ge: "4 \<le> targetBits p"
  unfolding targetBits_def by simp

lemma div_lt_width:
  assumes "n < 2 ^ b" "w \<le> b"
  shows "(n::int) div 2 ^ (b - w) < 2 ^ w"
proof -
  let ?c = "(2::int) ^ (b - w)"
  have "(2::int) ^ b = ?c * 2 ^ w" using assms(2) by (simp add: power_add [symmetric])
  then have "n < ?c * 2 ^ w" using assms(1) by simp
  moreover have "?c * (n div ?c) + n mod ?c = n" by simp
  moreover have "0 \<le> n mod ?c" by simp
  ultimately have "?c * (n div ?c) < ?c * 2 ^ w" by linarith
  then show ?thesis by (simp only: mult_less_cancel_left_pos [of ?c] zero_less_power zero_less_numeral)
qed

text \<open>With a stale or a right cache, \<^verbatim>\<open>_bitlength()\<close> returns the computed length.\<close>

lemma bitlength_cached:
  assumes "0 < significand x" "bits x \<le> 0 \<or> bits x = hexBitlength (significand x)"
  shows "bitlength False x = (hexBitlength (significand x), x\<lparr>bits := hexBitlength (significand x)\<rparr>)"
  using assms by (auto simp: bitlength_def Let_def)

section \<open>Rounding in normalization\<close>

lemma roundUp_spec:
  assumes "0 < d" "0 \<le> dropped" "sign x = 1 \<or> sign x = - 1"
    and "rounding x \<in> {ROUNDING_NEAREST, ROUNDING_UP, ROUNDING_DOWN, ROUNDING_ZERO}"
  shows "roundUp x dropped d = spec_round_up (rounding x) (sign x) dropped (nat d)"
proof -
  have n: "nat (d - 1) = nat d - 1" using assms(1) by simp
  show ?thesis
    using assms
    by (auto simp: roundUp_def spec_round_up_def Let_def first_dropped_bit n
        ROUNDING_NEAREST_def ROUNDING_UP_def ROUNDING_DOWN_def ROUNDING_ZERO_def)
qed

lemma applyRounding_no_carry:
  assumes "0 \<le> t" "significand x + 1 \<le> 2 ^ nat t"
  shows "significand (applyRounding t x) = significand x + 1"
  using assms by (simp add: applyRounding_def Let_def shl_def)

text \<open>
  Claim C4. When \<^verbatim>\<open>_normalize\<close> must drop \<open>d = b - W\<close> excess bits of an object whose
  significand is positive, whose cache is stale or right and whose sign is \<open>+1\<close> or \<open>-1\<close>,
  the new significand is the old one without its \<open>d\<close> low bits, plus one exactly when the
  table of the four modes says so: NEAREST on the top dropped bit alone (half rounds up, no
  tie to even), UP for a positive sign and non-zero dropped bits, DOWN for a negative sign
  and non-zero dropped bits, ZERO never.
\<close>

theorem normalize_rounds_up_by_mode:
  assumes sig: "0 < significand x"
    and cache: "bits x \<le> 0 \<or> bits x = hexBitlength (significand x)"
    and sg: "sign x = 1 \<or> sign x = - 1"
    and mode: "rounding x \<in> {ROUNDING_NEAREST, ROUNDING_UP, ROUNDING_DOWN, ROUNDING_ZERO}"
    and excess: "targetBits (precision x) < hexBitlength (significand x)"
  shows "significand (normalize x) =
           significand x div 2 ^ excessBits x +
           (if spec_round_up (rounding x) (sign x) (significand x mod 2 ^ excessBits x) (excessBits x)
            then 1 else 0)"
proof -
  let ?B = "hexBitlength (significand x)"
  let ?W = "targetBits (precision x)"
  let ?d = "?B - ?W"
  let ?x' = "x\<lparr>bits := ?B\<rparr>"
  let ?dropped = "significand x mod 2 ^ nat ?d"
  let ?x1 = "x\<lparr>significand := significand x div 2 ^ nat ?d, bits := ?W\<rparr>"
  have W: "4 \<le> ?W" by (rule targetBits_ge)
  have d: "0 < ?d" using excess by simp
  have ex: "excessBits x = nat ?d" by (simp add: excessBits_def)
  have bl: "bitlength False x = (?B, ?x')" by (rule bitlength_cached [OF sig cache])
  have hi: "significand x < 2 ^ nat ?B" using hexBitlength_bounds [OF sig] by simp
  have nd: "nat ?d = nat ?B - nat ?W" using W d by simp
  have "significand x div 2 ^ (nat ?B - nat ?W) < 2 ^ nat ?W"
    using hi W excess by (intro div_lt_width) simp_all
  then have q: "significand ?x1 + 1 \<le> 2 ^ nat ?W" by (simp add: nd)
  have ru: "roundUp ?x1 ?dropped ?d
            = spec_round_up (rounding x) (sign x) ?dropped (nat ?d)"
    using roundUp_spec [of ?d ?dropped ?x1] d sg mode by simp
  have ar: "significand (applyRounding ?W ?x1) = significand ?x1 + 1"
    using applyRounding_no_carry [OF _ q] W by simp
  have "normalize x =
          (let x2 = (if roundUp ?x1 ?dropped ?d then applyRounding ?W ?x1 else ?x1)
           in x2\<lparr>special := (if significand x2 = 0 then SPECIAL_ZERO else SPECIAL_NONE)\<rparr>)"
    using d by (simp add: normalize_def bl Let_def shl_def shr_def and_mask_mod)
  then show ?thesis
    by (simp add: Let_def ru ar ex)
qed

text \<open>
  The rule at the significand 255 with precision 1 (width 7) in mode NEAREST: one bit is
  dropped, it is set, and 127 is rounded up to 128.
\<close>

theorem normalize_rounds_up_by_mode_witness:
  "significand (normalize \<lparr>sign = 1, exponent = 7, significand = 255, precision = 1,
      rounding = ROUNDING_NEAREST, special = SPECIAL_NONE, bits = 8\<rparr>) = 128"
proof -
  let ?x = "\<lparr>sign = 1, exponent = 7, significand = 255, precision = 1,
      rounding = ROUNDING_NEAREST, special = SPECIAL_NONE, bits = 8\<rparr>"
  have h: "hexBitlength 255 = 8"
    by (simp add: hexBitlength_def toString16.simps firstDigitBits_def)
  show ?thesis
    using normalize_rounds_up_by_mode [of ?x]
    by (simp add: h targetBits_def excessBits_def spec_round_up_def)
qed

text \<open>
  Claim C3. The carry of a round-up is not renormalized: the overflow test of
  \<^verbatim>\<open>_normalize\<close> asks for a significand above \<open>2\<^sup>W\<close>, and the carry gives exactly
  \<open>2\<^sup>W\<close>. The product of 255 and 1 at precision 1 (width 7) is returned as a normal
  value with significand 128, of 8 bits, with the exponent 7 of 255 and a cache saying 7.
\<close>

theorem normalize_carry_keeps_extra_bit:
  "let r = mul initialDefaults (BigFloat (BigInt 255) 1 ROUNDING_NEAREST)
             (BigFloat (BigInt 1) 1 ROUNDING_NEAREST)
   in special r = SPECIAL_NONE \<and> significand r = 128 \<and> exponent r = 7 \<and> bits r = 7 \<and>
      targetBits (precision r) = 7 \<and> hexBitlength (significand r) = 8"
  by code_simp

section \<open>Special values in the arithmetic operations\<close>

lemma special_new_NaN: "special (newBigFloat cfg (Number NaN)) = SPECIAL_NAN"
  by (simp add: newBigFloat_def BigFloat_def fromNumber_def)

text \<open>Addition, subtraction and multiplication test for NaN before anything else.\<close>

lemma add_nan:
  "special a = SPECIAL_NAN \<or> special b = SPECIAL_NAN \<Longrightarrow> special (add cfg a b) = SPECIAL_NAN"
  by (auto simp: add_def add_special_def truthy_def special_new_NaN)

lemma sub_nan:
  "special a = SPECIAL_NAN \<or> special b = SPECIAL_NAN \<Longrightarrow> special (sub cfg a b) = SPECIAL_NAN"
  by (simp add: sub_def Let_def newBigFloat_def BigFloat_def add_nan)

lemma mul_nan:
  "special a = SPECIAL_NAN \<or> special b = SPECIAL_NAN \<Longrightarrow> special (mul cfg a b) = SPECIAL_NAN"
  by (auto simp: mul_def special_new_NaN)

text \<open>
  Claim C1. \<^verbatim>\<open>BigFloat.div\<close> tests the divisor for ZERO and for INF before it tests
  either operand for NaN: a NaN dividend over a zero divisor gives \<open>+\<infinity>\<close>, and over an
  infinite divisor gives zero, where the claim has NaN.
\<close>

theorem div_nan_dividend_special_divisor:
  "map_option (special \<circ> fst)
     (div_bf host initialDefaults (newBigFloat initialDefaults (Number NaN))
        (newBigFloat initialDefaults (Number (Finite 0 0)))) = Some SPECIAL_INF \<and>
   map_option (special \<circ> fst)
     (div_bf host initialDefaults (newBigFloat initialDefaults (Number NaN))
        (newBigFloat initialDefaults (Number Infinity))) = Some SPECIAL_ZERO"
  by (simp add: div_bf_def newBigFloat_def BigFloat_def fromNumber_def normalizeBits_def)

text \<open>
  The special cases of \<^verbatim>\<open>BigFloat.mul\<close> in the order of the source: NaN first, then
  ZERO (whatever the other operand), then INF with the product of the signs.
\<close>

lemma mul_special_cases:
  "special a = SPECIAL_NAN \<or> special b = SPECIAL_NAN \<Longrightarrow>
     special (mul cfg a b) = SPECIAL_NAN"
  "special a \<noteq> SPECIAL_NAN \<Longrightarrow> special b \<noteq> SPECIAL_NAN \<Longrightarrow>
   special a = SPECIAL_ZERO \<or> special b = SPECIAL_ZERO \<Longrightarrow>
     special (mul cfg a b) = SPECIAL_ZERO"
  "special a \<noteq> SPECIAL_NAN \<Longrightarrow> special b \<noteq> SPECIAL_NAN \<Longrightarrow>
   special a \<noteq> SPECIAL_ZERO \<Longrightarrow> special b \<noteq> SPECIAL_ZERO \<Longrightarrow>
   special a = SPECIAL_INF \<or> special b = SPECIAL_INF \<Longrightarrow>
     special (mul cfg a b) = SPECIAL_INF \<and>
     sign (mul cfg a b) = (if 0 < sign a * sign b then 1 else - 1)"
  by (auto simp: mul_def newBigFloat_def BigFloat_def fromNumber_def)

text \<open>
  Claim C2. \<^verbatim>\<open>BigFloat.mul\<close> tests for a ZERO operand before it tests for an INF one:
  zero times infinity, in either order, is returned as ZERO where the claim has NaN.
\<close>

theorem mul_zero_by_infinity_is_zero:
  "special (mul initialDefaults (newBigFloat initialDefaults (Number (Finite 0 0)))
              (newBigFloat initialDefaults (Number Infinity))) = SPECIAL_ZERO \<and>
   special (mul initialDefaults (newBigFloat initialDefaults (Number NegInfinity))
              (newBigFloat initialDefaults (Number (Finite 0 0)))) = SPECIAL_ZERO"
  by code_simp

section \<open>A zero sum\<close>

text \<open>Two normal operands whose aligned signed sum is zero give \<^verbatim>\<open>new BigFloat(0n)\<close>.\<close>

lemma add_zero_sum:
  assumes "special a = SPECIAL_NONE" "special b = SPECIAL_NONE" "fst (alignedSum a b) = 0"
  shows "add cfg a b = \<lparr>sign = 1, exponent = 0, significand = 0,
           precision = defaultPrecision cfg, rounding = defaultRounding cfg,
           special = SPECIAL_ZERO, bits = 0\<rparr>"
proof -
  obtain s c where sc: "alignedSum a b = (s, c)" by (cases "alignedSum a b")
  with assms(3) have "s = 0" by simp
  with assms(1,2) sc show ?thesis
    by (simp add: add_def add_special_def truthy_def newBigFloat_def BigFloat_def normalizeBits_def)
qed

text \<open>
  Claim C5. The zero sum of two normal operands is built by \<^verbatim>\<open>new BigFloat(0n)\<close>, with
  the default precision: for \<open>1\<close> at precision 50 and its negation, under the initial
  defaults, the sum is \<open>+0\<close> with precision 20, not the working precision 50.
\<close>

theorem add_opposites_zero_has_default_precision:
  "let a = BigFloat (Number (Finite 1 0)) 50 ROUNDING_NEAREST;
       b = neg initialDefaults a;
       r = add initialDefaults a b
   in special a = SPECIAL_NONE \<and> special b = SPECIAL_NONE \<and> fst (alignedSum a b) = 0 \<and>
      max (precision a) (precision b) = 50 \<and>
      special r = SPECIAL_ZERO \<and> sign r = 1 \<and> precision r = 20"
  by code_simp

section \<open>frexp and ldexp\<close>

text \<open>On a normal value, \<^verbatim>\<open>ldexp\<close> after \<^verbatim>\<open>frexp\<close> adds the exponent to itself.\<close>

lemma ldexp_frexp_normal:
  "special x = SPECIAL_NONE \<Longrightarrow>
   (case frexp cfg x of (m, e) \<Rightarrow> ldexp cfg m e)
     = normalize (x\<lparr>exponent := exponent x + exponent x\<rparr>)"
  by (simp add: frexp_def ldexp_def newBigFloat_def BigFloat_def Let_def)

text \<open>
  Claim C6. \<^verbatim>\<open>frexp\<close> returns a copy of \<open>x\<close>, exponent included, with that exponent;
  \<^verbatim>\<open>ldexp\<close> adds it again. For \<open>x = 2\<close> (exponent 1) the round trip gives the exponent 2,
  the value 4, which is neither the same record as \<open>x\<close> nor equal to it.
\<close>

theorem frexp_ldexp_doubles_exponent:
  "let x = BigFloat (Number (Finite 2 0)) 20 ROUNDING_NEAREST;
       (m, e) = frexp initialDefaults x;
       y = ldexp initialDefaults m e
   in special x = SPECIAL_NONE \<and> exponent x = 1 \<and> m = x \<and> e = 1 \<and>
      exponent y = 2 \<and> significand y = significand x \<and> y \<noteq> x \<and>
      \<not> equal_bf y x \<and> cmp x y = - 1"
  by code_simp

section \<open>Out-of-band signals\<close>

text \<open>
  The claim that \<^verbatim>\<open>fmod\<close> with a zero divisor returns in-band fails at \<^verbatim>\<open>fmod(1, 0)\<close>:
  the call throws.
\<close>

theorem fmod_zero_divisor_throws:
  "fmod noHost initialDefaults (BigFloat (Number (Finite 1 0)) 20 ROUNDING_NEAREST)
     (BigFloat (Number (Finite 0 0)) 20 ROUNDING_NEAREST)
   = Some (Inl (Error ''Division by zero in fmod''))"
  by code_simp

text \<open>
  Claim C7, amended. \<^verbatim>\<open>toBigInt\<close> applied to NaN or to INF throws a RangeError, and it
  is not the only operation that signals out-of-band: \<^verbatim>\<open>fmod(a, b)\<close> with a zero \<open>b\<close>
  throws \<^verbatim>\<open>Error("Division by zero in fmod")\<close> from its guard, for every \<open>a\<close>, and no NaN
  is returned.
\<close>

theorem toBigInt_and_fmod_zero_throw:
  assumes "special x = SPECIAL_NAN" and "special y = SPECIAL_INF"
    and "special b = SPECIAL_ZERO" and "significand b = 0"
  shows "toBigInt x = Inl (RangeError ''Cannot convert NaN to BigInt'') \<and>
         toBigInt y = Inl (RangeError ''Cannot convert Infinity to BigInt'') \<and>
         fmod host cfg a b = Some (Inl (Error ''Division by zero in fmod''))"
  using assms by (simp add: toBigInt_def fmod_def)

text \<open>
  The three throws at \<^verbatim>\<open>new BigFloat(NaN).toBigInt()\<close>,
  \<^verbatim>\<open>new BigFloat(-Infinity).toBigInt()\<close> and \<^verbatim>\<open>fmod(7, 0n)\<close>.
\<close>

theorem toBigInt_and_fmod_zero_throw_witness:
  "toBigInt (newBigFloat initialDefaults (Number NaN))
     = Inl (RangeError ''Cannot convert NaN to BigInt'') \<and>
   toBigInt (newBigFloat initialDefaults (Number NegInfinity))
     = Inl (RangeError ''Cannot convert Infinity to BigInt'') \<and>
   fmod noHost initialDefaults (newBigFloat initialDefaults (Number (Finite 7 0)))
     (newBigFloat initialDefaults (BigInt 0))
     = Some (Inl (Error ''Division by zero in fmod''))"
  using toBigInt_and_fmod_zero_throw
    [of "newBigFloat initialDefaults (Number NaN)"
        "newBigFloat initialDefaults (Number NegInfinity)"
        "newBigFloat initialDefaults (BigInt 0)"
        noHost initialDefaults "newBigFloat initialDefaults (Number (Finite 7 0))"]
  by (simp add: newBigFloat_def BigFloat_def fromNumber_def normalizeBits_def)

text \<open>
  Claim C8. For the base \<open>-\<infinity>\<close> and a positive exponent, odd (3) or even (2),
  \<^verbatim>\<open>BigFloat.pow\<close> ends in a TypeError: it calls \<^verbatim>\<open>BigFloat.isInteger\<close>, which the
  source never defines. No \<open>-\<infinity>\<close> or \<open>+\<infinity>\<close> is returned.
\<close>

theorem pow_negative_infinity_throws:
  "pow_special initialDefaults (newBigFloat initialDefaults (Number NegInfinity))
     (newBigFloat initialDefaults (Number (Finite 3 0)))
     = Some (Inl (TypeError ''BigFloat.isInteger is not a function'')) \<and>
   pow_special initialDefaults (newBigFloat initialDefaults (Number NegInfinity))
     (newBigFloat initialDefaults (Number (Finite 2 0)))
     = Some (Inl (TypeError ''BigFloat.isInteger is not a function''))"
  by code_simp

section \<open>What division leaves in its operands\<close>

text \<open>
  Past the special cases and the divisor 1, every return of \<^verbatim>\<open>BigFloat.div\<close> leaves the
  divisor with the larger of the two precisions.
\<close>

lemma div_divisor_after:
  assumes "div_bf host cfg a b = Some (r, a', b')"
    and "special a = SPECIAL_NONE" "special b = SPECIAL_NONE"
    and "\<not> (exponent b = 0 \<and> significand b = 1)"
  shows "b' = b\<lparr>precision := max (precision a) (precision b)\<rparr>"
  using assms
  by (auto simp: div_bf_def truthy_def Let_def split: if_splits option.splits)

text \<open>
  Claim C9. \<^verbatim>\<open>BigFloat.div\<close> writes the precision of its divisor: dividing \<open>0.5\<close> at
  precision 50 by \<open>0.25\<close> at precision 20 returns \<open>2\<close> and leaves the divisor with
  precision 50.
\<close>

theorem div_overwrites_divisor_precision:
  "let a = BigFloat (Number (Finite 1 (- 1))) 50 ROUNDING_NEAREST;
       b = BigFloat (Number (Finite 1 (- 2))) 20 ROUNDING_NEAREST
   in precision b = 20 \<and>
      map_option (\<lambda>(r, a', b'). (significand r, exponent r, a' = a, precision b', b' = b))
        (div_bf noHost initialDefaults a b) = Some (1, 1, True, 50, False)"
  by code_simp

section \<open>Equality against comparison\<close>

text \<open>
  Claim C10. \<^verbatim>\<open>BigFloat.equal\<close> compares the stored fields, \<^verbatim>\<open>BigFloat.cmp\<close> the
  rescaled significands: the sum of \<open>0.5\<close> and \<open>0.5\<close> is stored with significand 2 and
  exponent 0, the constructor stores \<open>1\<close> with significand 1 and exponent 0, \<^verbatim>\<open>cmp\<close>
  returns 0 on the two and \<^verbatim>\<open>equal\<close> returns false.
\<close>

theorem equal_disagrees_with_cmp:
  "let half = BigFloat (Number (Finite 1 (- 1))) 20 ROUNDING_NEAREST;
       a = add initialDefaults half half;
       b = BigFloat (Number (Finite 1 0)) 20 ROUNDING_NEAREST
   in special a = SPECIAL_NONE \<and> significand a = 2 \<and> exponent a = 0 \<and>
      special b = SPECIAL_NONE \<and> significand b = 1 \<and> exponent b = 0 \<and>
      cmp a b = 0 \<and> \<not> equal_bf a b"
  by code_simp

end
